theory Spec2Isabelle
  imports Complex_Main "HOL-Library.Log_Nat" "HOL-Library.Sublist"
begin

section \<open>Python floats\<close>

text \<open>
  The pricing arithmetic of \<^verbatim>\<open>create_quote\<close> is carried out on Python floats, which are
  IEEE 754 binary64 numbers. A finite double is modelled by its exact value, a rational
  number; every arithmetic operation computes the exact rational result and rounds it to
  the nearest double, ties to the even significand. Gradual underflow is part of the
  rounding; overflow to infinity is not modelled, since every number computed by the
  pricing code lies far below \<open>2 ^ 1024\<close>.
\<close>

type_synonym double = rat

definition pow2 :: "int \<Rightarrow> rat" where
  "pow2 e = (if 0 \<le> e then 2 ^ nat e else 1 / 2 ^ nat (- e))"

text \<open>Rounding to the nearest integer, a tie going to the even neighbour; \<open>f\<close> is the floor.\<close>

definition tie_even :: "rat \<Rightarrow> int \<Rightarrow> int" where
  "tie_even q f =
     (if q - of_int f < 1 / 2 then f
      else if 1 / 2 < q - of_int f then f + 1
      else if even f then f else f + 1)"

definition round_half_even :: "rat \<Rightarrow> int" where
  "round_half_even q = tie_even q \<lfloor>q\<rfloor>"

text \<open>The binary exponent \<open>\<lfloor>log\<^sub>2 x\<rfloor>\<close> of a positive rational.\<close>

definition floor_log2 :: "rat \<Rightarrow> int" where
  "floor_log2 x =
     (if 1 \<le> x then bitlen \<lfloor>x\<rfloor> - 1
      else if x * 2 ^ nat (bitlen \<lfloor>1 / x\<rfloor> - 1) = 1 then - (bitlen \<lfloor>1 / x\<rfloor> - 1)
      else - bitlen \<lfloor>1 / x\<rfloor>)"

text \<open>
  The spacing of the doubles around \<open>x\<close>: 53 significant bits, and the fixed spacing
  \<open>2 ^ - 1074\<close> of the subnormal numbers below \<open>2 ^ - 1022\<close>.
\<close>

definition quantum :: "rat \<Rightarrow> rat" where
  "quantum x = pow2 (max (floor_log2 \<bar>x\<bar>) (- 1022) - 52)"

definition to_grid :: "rat \<Rightarrow> rat \<Rightarrow> rat" where
  "to_grid x u = of_int (round_half_even (x / u)) * u"

definition round_double :: "rat \<Rightarrow> double" where
  "round_double x = (if x = 0 then 0 else to_grid x (quantum x))"

text \<open>A float literal such as \<^verbatim>\<open>0.95\<close> denotes the double nearest to the decimal.\<close>

definition float_lit :: "rat \<Rightarrow> double" where
  "float_lit q = round_double q"

text \<open>\<^verbatim>\<open>float(n)\<close>, the conversion Python applies to an int operand of a float operation.\<close>

definition float_of_int :: "int \<Rightarrow> double" where
  "float_of_int n = round_double (of_int n)"

definition fadd :: "double \<Rightarrow> double \<Rightarrow> double" where
  "fadd x y = round_double (x + y)"

definition fsub :: "double \<Rightarrow> double \<Rightarrow> double" where
  "fsub x y = round_double (x - y)"

definition fmul :: "double \<Rightarrow> double \<Rightarrow> double" where
  "fmul x y = round_double (x * y)"

definition fdiv :: "double \<Rightarrow> double \<Rightarrow> double" where
  "fdiv x y = round_double (x / y)"

text \<open>\<^verbatim>\<open>min(a, b)\<close> keeps its first argument unless the second is smaller.\<close>

definition fmin :: "double \<Rightarrow> double \<Rightarrow> double" where
  "fmin a b = (if b < a then b else a)"

text \<open>
  \<^verbatim>\<open>round(x, n)\<close> on a float: CPython writes \<open>x\<close> as the correctly rounded decimal with
  \<open>n\<close> digits after the point (the exact binary value decides, an exact tie goes to the
  even digit) and reads that decimal back as the nearest double.
\<close>

definition py_round :: "double \<Rightarrow> nat \<Rightarrow> double" where
  "py_round x n = round_double (of_int (round_half_even (x * 10 ^ n)) / 10 ^ n)"

text \<open>
  A float received from the caller may also be an infinity or a NaN; \<^verbatim>\<open>home_value\<close> is
  only tested and compared, never used in arithmetic.
\<close>

datatype pyfloat = Fin rat | PosInf | NegInf | NaN

fun float_truthy :: "pyfloat \<Rightarrow> bool" where
  "float_truthy (Fin x) = (x \<noteq> 0)"
| "float_truthy PosInf = True"
| "float_truthy NegInf = True"
| "float_truthy NaN = True"

fun float_gt :: "pyfloat \<Rightarrow> rat \<Rightarrow> bool" where
  "float_gt (Fin x) c = (c < x)"
| "float_gt PosInf c = True"
| "float_gt NegInf c = False"
| "float_gt NaN c = False"

fun float_ge :: "pyfloat \<Rightarrow> rat \<Rightarrow> bool" where
  "float_ge (Fin x) c = (c \<le> x)"
| "float_ge PosInf c = True"
| "float_ge NegInf c = False"
| "float_ge NaN c = False"

text \<open>Only a finite float is a JSON number.\<close>

fun float_finite :: "pyfloat \<Rightarrow> bool" where
  "float_finite (Fin x) = True"
| "float_finite PosInf = False"
| "float_finite NegInf = False"
| "float_finite NaN = False"

section \<open>Data model\<close>

datatype QuoteType = Auto | Home

record QuoteRequest =
  quote_type :: QuoteType
  zip_code :: string
  age :: "int option"
  vehicle_year :: "int option"
  vehicle_make :: "string option"
  vehicle_model :: "string option"
  accidents_last_5_years :: "int option"
  home_value :: "pyfloat option"
  square_feet :: "int option"
  security_system :: "bool option"

text \<open>The \<^verbatim>\<open>Field\<close> constraints of \<^verbatim>\<open>QuoteRequest\<close>; an absent field passes.\<close>

definition field_ok :: "('a \<Rightarrow> bool) \<Rightarrow> 'a option \<Rightarrow> bool" where
  "field_ok c v = (case v of None \<Rightarrow> True | Some x \<Rightarrow> c x)"

definition valid_QuoteRequest :: "QuoteRequest \<Rightarrow> bool" where
  "valid_QuoteRequest r \<longleftrightarrow>
     field_ok (\<lambda>a. 16 \<le> a \<and> a \<le> 120) (age r) \<and>
     field_ok (\<lambda>y. 1980 \<le> y \<and> y \<le> 2100) (vehicle_year r) \<and>
     field_ok (\<lambda>a. 0 \<le> a \<and> a \<le> 10) (accidents_last_5_years r) \<and>
     field_ok (\<lambda>v. float_ge v 0) (home_value r) \<and>
     field_ok (\<lambda>s. 100 \<le> s) (square_feet r)"

record CarrierOffer =
  name :: string
  monthly :: double
  rating :: double
  features :: "string list"
  cta :: string

record QuoteResponse =
  resp_id :: string
  resp_quote_type :: QuoteType
  resp_zip_code :: string
  resp_results :: "CarrierOffer list"

text \<open>
  The persisted document: \<^verbatim>\<open>payload.model_dump()\<close> with the key \<^verbatim>\<open>results\<close> added, and,
  once stored, the identifier of the record.
\<close>

record Document =
  request :: QuoteRequest
  results :: "CarrierOffer list"

record StoredDocument =
  doc_id :: string
  document :: Document

text \<open>
  What the caller receives instead of a response: an \<^verbatim>\<open>HTTPException\<close> raised by a handler,
  the validation error of the framework (status 422), or the status 500 with which the
  framework answers when it cannot produce an answer.
\<close>

datatype Failure =
    HTTPException (status_code: nat) (detail: string)
  | RequestValidationError
  | InternalServerError

fun http_status :: "Failure \<Rightarrow> nat" where
  "http_status (HTTPException c d) = c"
| "http_status RequestValidationError = 422"
| "http_status InternalServerError = 500"

section \<open>Pricing\<close>

definition base_price :: "QuoteRequest \<Rightarrow> double" where
  "base_price payload = (if quote_type payload = Auto then 600 else 1200)"

text \<open>\<^verbatim>\<open>x and x < c\<close> on an optional int: \<^verbatim>\<open>None\<close> and \<open>0\<close> are falsy.\<close>

definition present_below :: "int option \<Rightarrow> int \<Rightarrow> bool" where
  "present_below v c = (case v of None \<Rightarrow> False | Some x \<Rightarrow> x \<noteq> 0 \<and> x < c)"

text \<open>\<^verbatim>\<open>payload.accidents_last_5_years or 0\<close>.\<close>

definition or_zero :: "int option \<Rightarrow> int" where
  "or_zero v = (case v of None \<Rightarrow> 0 | Some x \<Rightarrow> if x \<noteq> 0 then x else 0)"

definition age_modifier :: "QuoteRequest \<Rightarrow> double \<Rightarrow> double" where
  "age_modifier payload m =
     (if present_below (age payload) 25 then fadd m (float_lit (25 / 100)) else m)"

definition vehicle_modifier :: "QuoteRequest \<Rightarrow> double \<Rightarrow> double" where
  "vehicle_modifier payload m =
     (if present_below (vehicle_year payload) 2005 then fadd m (float_lit (15 / 100)) else m)"

definition accidents_modifier :: "QuoteRequest \<Rightarrow> double \<Rightarrow> double" where
  "accidents_modifier payload m =
     (if 0 < or_zero (accidents_last_5_years payload)
      then fadd m (fmin (float_lit (4 / 10))
                     (fmul (float_lit (1 / 10))
                        (float_of_int (or_zero (accidents_last_5_years payload)))))
      else m)"

definition home_value_modifier :: "QuoteRequest \<Rightarrow> double \<Rightarrow> double" where
  "home_value_modifier payload m =
     (if (case home_value payload of None \<Rightarrow> False
          | Some v \<Rightarrow> float_truthy v \<and> float_gt v 750000)
      then fadd m (float_lit (2 / 10)) else m)"

definition security_modifier :: "QuoteRequest \<Rightarrow> double \<Rightarrow> double" where
  "security_modifier payload m =
     (if security_system payload = Some True then fsub m (float_lit (5 / 100)) else m)"

text \<open>The variable \<^verbatim>\<open>modifiers\<close> after the three \<^verbatim>\<open>if\<close> blocks, starting from \<open>0.0\<close>.\<close>

definition modifiers :: "QuoteRequest \<Rightarrow> double" where
  "modifiers payload =
     (let m1 = age_modifier payload 0;
          m2 = (if quote_type payload = Auto
                then accidents_modifier payload (vehicle_modifier payload m1) else m1)
      in if quote_type payload = Home
         then security_modifier payload (home_value_modifier payload m2) else m2)"

text \<open>\<^verbatim>\<open>round(base_price * (1 + modifiers) / 12 * c, 2)\<close>, written three times in the source.\<close>

definition monthly_price :: "double \<Rightarrow> double \<Rightarrow> double \<Rightarrow> double" where
  "monthly_price base mods c =
     py_round (fmul (fdiv (fmul base (fadd (float_of_int 1) mods)) (float_of_int 12)) c) 2"

definition carriers :: "QuoteRequest \<Rightarrow> CarrierOffer list" where
  "carriers payload =
     [\<lparr>name = ''BlueShield Mutual'',
       monthly = monthly_price (base_price payload) (modifiers payload) (float_lit (95 / 100)),
       rating = float_lit (47 / 10),
       features = [''24/7 support'', ''Bundle discount'', ''Fast claims''],
       cta = ''Get Started''\<rparr>,
      \<lparr>name = ''NorthStar Insurance'',
       monthly = monthly_price (base_price payload) (modifiers payload) (float_lit (102 / 100)),
       rating = float_lit (45 / 10),
       features = [''Accident forgiveness'', ''Roadside (auto)'', ''Smart home (home)''],
       cta = ''Select''\<rparr>,
      \<lparr>name = ''Aurora Coverage Co.'',
       monthly = monthly_price (base_price payload) (modifiers payload) (float_lit (88 / 100)),
       rating = float_lit (43 / 10),
       features = [''Low deductible options'', ''Local agents'', ''Online portal''],
       cta = ''View Details''\<rparr>]"

section \<open>Endpoints\<close>

text \<open>
  \<^verbatim>\<open>create_document\<close>, \<^verbatim>\<open>get_documents\<close> and \<^verbatim>\<open>db\<close> are imported from the module
  \<^verbatim>\<open>database\<close>. The handlers take the two functions as parameters; \<open>db\<close> is \<open>None\<close> when the
  store is not configured and otherwise holds the state \<open>'s\<close> of the store. A call of
  \<^verbatim>\<open>create_document\<close> either raises (\<open>Inl\<close> of the text of the exception, \<^verbatim>\<open>str(e)\<close>) or
  returns the inserted identifier, and leaves the store in a new state.
\<close>

definition create_quote ::
  "(string \<Rightarrow> Document \<Rightarrow> 's \<Rightarrow> (string + string) \<times> 's) \<Rightarrow> 's option \<Rightarrow> QuoteRequest
     \<Rightarrow> (Failure + QuoteResponse) \<times> 's option" where
  "create_quote create_document db payload =
     (case db of
        None \<Rightarrow> (Inl (HTTPException 500 ''Database not configured''), None)
      | Some s \<Rightarrow>
          (let doc = \<lparr>request = payload, results = carriers payload\<rparr>
           in case create_document ''quote'' doc s of
                (Inl e, s') \<Rightarrow> (Inl (HTTPException 500 (''Failed to save: '' @ e)), Some s')
              | (Inr inserted_id, s') \<Rightarrow>
                  (Inr \<lparr>resp_id = inserted_id,
                        resp_quote_type = quote_type payload,
                        resp_zip_code = zip_code payload,
                        resp_results = carriers payload\<rparr>,
                   Some s')))"

text \<open>
  \<^verbatim>\<open>list_quotes\<close>: the identifier of a stored document is already a string in the model, so
  the loop that rewrites \<^verbatim>\<open>d["_id"]\<close> as \<^verbatim>\<open>str(d["_id"])\<close> leaves the documents as they are.
\<close>

definition list_quotes ::
  "(string \<Rightarrow> int \<Rightarrow> 's \<Rightarrow> string + StoredDocument list) \<Rightarrow> 's option \<Rightarrow> int
     \<Rightarrow> Failure + StoredDocument list" where
  "list_quotes get_documents db limit =
     (case db of
        None \<Rightarrow> Inl (HTTPException 500 ''Database not configured'')
      | Some s \<Rightarrow>
          (case get_documents ''quote'' limit s of
             Inl e \<Rightarrow> Inl (HTTPException 500 e)
           | Inr docs \<Rightarrow> Inr docs))"

text \<open>
  \<^verbatim>\<open>@app.post("/api/quotes")\<close> with the parameter \<^verbatim>\<open>payload: QuoteRequest\<close>: the framework
  validates the body against the model and calls the handler only with a valid payload.
  An invalid body is answered with status 422 and the list of the violations, each with
  the offending input. A NaN or an infinity is not a JSON number: when \<^verbatim>\<open>home_value\<close> is the
  offending input and is not finite, that answer cannot be encoded and the caller receives
  status 500.
\<close>

definition unencodable_violation :: "QuoteRequest \<Rightarrow> bool" where
  "unencodable_violation body =
     (case home_value body of
        None \<Rightarrow> False
      | Some v \<Rightarrow> \<not> float_ge v 0 \<and> \<not> float_finite v)"

definition post_api_quotes ::
  "(string \<Rightarrow> Document \<Rightarrow> 's \<Rightarrow> (string + string) \<times> 's) \<Rightarrow> 's option \<Rightarrow> QuoteRequest
     \<Rightarrow> (Failure + QuoteResponse) \<times> 's option" where
  "post_api_quotes create_document db body =
     (if valid_QuoteRequest body then create_quote create_document db body
      else if unencodable_violation body then (Inl InternalServerError, db)
      else (Inl RequestValidationError, db))"

section \<open>The quote store\<close>

text \<open>
  Modelled from the spec: the module \<^verbatim>\<open>database\<close> (\<^verbatim>\<open>create_document\<close>,
  \<^verbatim>\<open>get_documents\<close>) is not among the sources. The store keeps each collection in insertion
  order, hands out a fresh identifier with every insert, and \<open>fault\<close> holds the text of the
  exception that the underlying operation raises when the store cannot be written or read.
\<close>

record Database =
  collections :: "string \<Rightarrow> StoredDocument list"
  issued :: nat
  fault :: "string option"

text \<open>Modelled from the spec: the \<open>n\<close>-th identifier the store generates; no two are equal.\<close>

definition object_id :: "nat \<Rightarrow> string" where
  "object_id n = replicate (Suc n) (CHR ''i'')"

text \<open>
  Modelled from the spec: \<^verbatim>\<open>create(record) -> unique_id\<close> persists the document and returns
  a system-generated unique identifier; it fails on a write failure and then stores nothing.
\<close>

definition create_document :: "string \<Rightarrow> Document \<Rightarrow> Database \<Rightarrow> (string + string) \<times> Database" where
  "create_document collection_name doc s =
     (case fault s of
        Some e \<Rightarrow> (Inl e, s)
      | None \<Rightarrow>
          (Inr (object_id (issued s)),
           s\<lparr>collections := (collections s)
                (collection_name := collections s collection_name
                   @ [\<lparr>doc_id = object_id (issued s), document = doc\<rparr>]),
             issued := Suc (issued s)\<rparr>))"

text \<open>
  Modelled from the spec: \<^verbatim>\<open>list(limit)\<close> returns up to \<open>limit\<close> most-recently-inserted
  records, in the insertion order of the store.
\<close>

definition get_documents :: "string \<Rightarrow> int \<Rightarrow> Database \<Rightarrow> string + StoredDocument list" where
  "get_documents collection_name limit s =
     (case fault s of
        Some e \<Rightarrow> Inl e
      | None \<Rightarrow>
          Inr (drop (length (collections s collection_name) - nat limit)
                 (collections s collection_name)))"

text \<open>Modelled from the spec: a configured store into which nothing has been inserted yet.\<close>

definition empty_database :: Database where
  "empty_database = \<lparr>collections = (\<lambda>c. []), issued = 0, fault = None\<rparr>"

section \<open>The pricing rules in the words of the specification\<close>

text \<open>
  Section 4.1 of the specification: the base price, the modifier accumulated from \<open>0.0\<close>
  (a rule applies when its field is present and satisfies the condition), and the monthly
  price of a carrier with multiplier \<open>c\<close>.
\<close>

definition spec_base_price :: "QuoteRequest \<Rightarrow> double" where
  "spec_base_price r = (case quote_type r of Auto \<Rightarrow> 600 | Home \<Rightarrow> 1200)"

definition spec_age_rule :: "QuoteRequest \<Rightarrow> bool" where
  "spec_age_rule r = (case age r of None \<Rightarrow> False | Some a \<Rightarrow> a < 25)"

definition spec_vehicle_rule :: "QuoteRequest \<Rightarrow> bool" where
  "spec_vehicle_rule r =
     (quote_type r = Auto \<and> (case vehicle_year r of None \<Rightarrow> False | Some y \<Rightarrow> y < 2005))"

definition spec_accidents_rule :: "QuoteRequest \<Rightarrow> int option" where
  "spec_accidents_rule r =
     (case accidents_last_5_years r of
        None \<Rightarrow> None
      | Some a \<Rightarrow> if quote_type r = Auto \<and> 0 < a then Some a else None)"

definition spec_home_value_rule :: "QuoteRequest \<Rightarrow> bool" where
  "spec_home_value_rule r =
     (quote_type r = Home \<and> (case home_value r of None \<Rightarrow> False | Some v \<Rightarrow> float_gt v 750000))"

definition spec_security_rule :: "QuoteRequest \<Rightarrow> bool" where
  "spec_security_rule r = (quote_type r = Home \<and> security_system r = Some True)"

definition spec_modifier :: "QuoteRequest \<Rightarrow> double" where
  "spec_modifier r =
     (let m1 = (if spec_age_rule r then fadd 0 (float_lit (25 / 100)) else 0);
          m2 = (if spec_vehicle_rule r then fadd m1 (float_lit (15 / 100)) else m1);
          m3 = (case spec_accidents_rule r of
                  None \<Rightarrow> m2
                | Some a \<Rightarrow>
                    fadd m2 (fmin (float_lit (4 / 10)) (fmul (float_lit (1 / 10)) (float_of_int a))));
          m4 = (if spec_home_value_rule r then fadd m3 (float_lit (2 / 10)) else m3)
      in if spec_security_rule r then fsub m4 (float_lit (5 / 100)) else m4)"

definition spec_monthly :: "QuoteRequest \<Rightarrow> double \<Rightarrow> double" where
  "spec_monthly r c =
     py_round
       (fmul (fdiv (fmul (spec_base_price r) (fadd (float_of_int 1) (spec_modifier r)))
                (float_of_int 12)) c) 2"

section \<open>Sample requests\<close>

text \<open>Concrete requests at which the theorems below are instantiated.\<close>

abbreviation young_driver :: QuoteRequest where
  "young_driver \<equiv>
     \<lparr>quote_type = Auto, zip_code = ''94107'', age = Some 22, vehicle_year = Some 2001,
      vehicle_make = Some ''Honda'', vehicle_model = Some ''Civic'',
      accidents_last_5_years = Some 3, home_value = None, square_feet = None,
      security_system = None\<rparr>"

abbreviation careful_driver :: QuoteRequest where
  "careful_driver \<equiv>
     \<lparr>quote_type = Auto, zip_code = ''60614'', age = Some 41, vehicle_year = Some 2018,
      vehicle_make = Some ''Toyota'', vehicle_model = Some ''Corolla'',
      accidents_last_5_years = Some 0, home_value = None, square_feet = None,
      security_system = None\<rparr>"

abbreviation home_example :: QuoteRequest where
  "home_example \<equiv>
     \<lparr>quote_type = Home, zip_code = ''10001'', age = Some 30, vehicle_year = None,
      vehicle_make = None, vehicle_model = None, accidents_last_5_years = None,
      home_value = Some (Fin 800000), square_feet = Some 2400,
      security_system = Some True\<rparr>"

abbreviation unreachable_database :: Database where
  "unreachable_database \<equiv>
     empty_database\<lparr>fault := Some ''connection to the storage server at db.internal:27017 was refused''\<rparr>"

abbreviation first_stored :: StoredDocument where
  "first_stored \<equiv>
     \<lparr>doc_id = ''i'',
      document = \<lparr>request = young_driver, results = carriers young_driver\<rparr>\<rparr>"

abbreviation second_stored :: StoredDocument where
  "second_stored \<equiv>
     \<lparr>doc_id = ''ii'',
      document = \<lparr>request = careful_driver, results = carriers careful_driver\<rparr>\<rparr>"

abbreviation third_stored :: StoredDocument where
  "third_stored \<equiv>
     \<lparr>doc_id = ''iii'',
      document = \<lparr>request = home_example, results = carriers home_example\<rparr>\<rparr>"

abbreviation three_quotes :: Database where
  "three_quotes \<equiv>
     empty_database
       \<lparr>collections := (collections empty_database)
          (''quote'' := [first_stored, second_stored, third_stored]),
        issued := 3\<rparr>"

section \<open>The rounding is round-to-nearest, ties to even\<close>

text \<open>
  \<open>round_double x\<close> is a multiple of the spacing \<open>quantum x\<close> with a significand of at most
  53 bits, no multiple of the spacing is nearer to \<open>x\<close>, and \<open>quantum x\<close> is the spacing of
  the binade of \<open>x\<close>: \<open>floor_log2\<close> is the binary exponent.
\<close>

lemma pow2_pos: "0 < pow2 e"
  by (simp add: pow2_def)

lemma round_half_even_nearest: "\<bar>of_int (round_half_even q) - q\<bar> \<le> 1 / 2"
proof -
  have "of_int \<lfloor>q\<rfloor> \<le> q" and "q < of_int \<lfloor>q\<rfloor> + 1"
    by linarith+
  then show ?thesis
    by (auto simp: round_half_even_def tie_even_def)
qed

lemma to_grid_nearest:
  assumes "0 < u"
  shows "\<bar>to_grid x u - x\<bar> \<le> u / 2"
proof -
  have "to_grid x u - x = (of_int (round_half_even (x / u)) - x / u) * u"
    using assms by (simp add: to_grid_def algebra_simps)
  then have "\<bar>to_grid x u - x\<bar> = \<bar>of_int (round_half_even (x / u)) - x / u\<bar> * u"
    using assms by (simp add: abs_mult)
  also have "\<dots> \<le> 1 / 2 * u"
    using round_half_even_nearest [of "x / u"] assms by (intro mult_right_mono) simp_all
  finally show ?thesis
    by simp
qed

lemma round_double_nearest: "\<bar>round_double x - x\<bar> \<le> quantum x / 2"
proof (cases "x = 0")
  case True
  then show ?thesis
    using pow2_pos [of "max (floor_log2 \<bar>x\<bar>) (- 1022) - 52"]
    by (simp add: round_double_def quantum_def less_imp_le)
next
  case False
  then show ?thesis
    using to_grid_nearest [of "quantum x" x] pow2_pos [of "max (floor_log2 \<bar>x\<bar>) (- 1022) - 52"]
    by (simp add: round_double_def quantum_def)
qed

lemma pow2_powi: "pow2 e = 2 powi e"
  by (simp add: pow2_def power_int_def inverse_eq_divide power_one_over [symmetric])

lemma pow2_nat: "0 \<le> e \<Longrightarrow> pow2 e = 2 ^ nat e"
  by (simp add: pow2_def)

lemma pow2_Suc: "pow2 (e + 1) = 2 * pow2 e"
  by (simp add: pow2_powi power_int_add)

lemma pow2_minus: "pow2 (- e) = 1 / pow2 e"
  by (simp add: pow2_powi power_int_minus inverse_eq_divide)

lemma floor_bitlen_bounds:
  assumes "1 \<le> y"
  shows "1 \<le> bitlen \<lfloor>y\<rfloor> \<and> pow2 (bitlen \<lfloor>y\<rfloor> - 1) \<le> y \<and> y < pow2 (bitlen \<lfloor>y\<rfloor>)"
proof -
  let ?n = "\<lfloor>y\<rfloor>"
  have n: "0 < ?n" using assms by simp
  have b: "1 \<le> bitlen ?n"
    using n bitlen_eq_zero_iff [of ?n] bitlen_nonneg [of ?n] by linarith
  from bitlen_bounds [OF n] have lo: "2 ^ nat (bitlen ?n - 1) \<le> ?n" and hi: "?n < 2 ^ nat (bitlen ?n)"
    by simp_all
  have "(2::rat) ^ nat (bitlen ?n - 1) = of_int (2 ^ nat (bitlen ?n - 1))" by simp
  also have "\<dots> \<le> of_int ?n" using lo by (simp only: of_int_le_iff)
  also have "\<dots> \<le> y" by simp
  finally have l: "(2::rat) ^ nat (bitlen ?n - 1) \<le> y" .
  have "?n + 1 \<le> 2 ^ nat (bitlen ?n)" using hi by simp
  then have "of_int (?n + 1) \<le> (of_int (2 ^ nat (bitlen ?n)) :: rat)" by (simp only: of_int_le_iff)
  moreover have "y < of_int (?n + 1)" by linarith
  ultimately have h: "y < 2 ^ nat (bitlen ?n)" by simp
  show ?thesis
    using b l h by (simp add: pow2_nat)
qed

lemma floor_log2_bounds:
  assumes "0 < x"
  shows "pow2 (floor_log2 x) \<le> x \<and> x < pow2 (floor_log2 x + 1)"
proof (cases "1 \<le> x")
  case True
  then show ?thesis
    using floor_bitlen_bounds [OF True] by (simp add: floor_log2_def)
next
  case False
  define k where "k = bitlen \<lfloor>1 / x\<rfloor> - 1"
  have y: "1 \<le> 1 / x" using False assms by simp
  from floor_bitlen_bounds [OF y]
  have k: "0 \<le> k" and lo: "pow2 k \<le> 1 / x" and hi: "1 / x < pow2 (k + 1)"
    by (simp_all add: k_def)
  have lo': "x \<le> pow2 (- k)"
    unfolding pow2_minus using lo assms pow2_pos [of k] by (simp add: field_simps)
  have hi': "pow2 (- (k + 1)) < x"
    unfolding pow2_minus using hi assms pow2_pos [of "k + 1"] by (simp add: field_simps)
  have t: "x * 2 ^ nat k = 1 \<longleftrightarrow> x = pow2 (- k)"
    using pow2_pos [of k] k by (simp add: pow2_minus pow2_nat field_simps)
  show ?thesis
  proof (cases "x = pow2 (- k)")
    case True
    then have "floor_log2 x = - k"
      using False t by (simp add: floor_log2_def k_def)
    moreover have "x < pow2 (- k + 1)"
      unfolding pow2_Suc using True pow2_pos [of "- k"] by simp
    ultimately show ?thesis
      using True by simp
  next
    case ne: False
    then have "floor_log2 x = - (k + 1)"
      using False t by (simp add: floor_log2_def k_def)
    moreover have "x < pow2 (- k)"
      using lo' ne by simp
    ultimately show ?thesis
      using hi' by simp
  qed
qed

lemma round_half_even_closest: "\<bar>of_int (round_half_even q) - q\<bar> \<le> \<bar>of_int m - q\<bar>"
proof -
  have f: "of_int \<lfloor>q\<rfloor> \<le> q" "q < of_int \<lfloor>q\<rfloor> + 1"
    by linarith+
  consider "m \<le> \<lfloor>q\<rfloor>" | "\<lfloor>q\<rfloor> + 1 \<le> m"
    by linarith
  then show ?thesis
  proof cases
    case 1
    then have "(of_int m :: rat) \<le> of_int \<lfloor>q\<rfloor>"
      by (simp only: of_int_le_iff)
    with f show ?thesis
      by (auto simp: round_half_even_def tie_even_def)
  next
    case 2
    then have "(of_int (\<lfloor>q\<rfloor> + 1) :: rat) \<le> of_int m"
      by (simp only: of_int_le_iff)
    with f show ?thesis
      by (auto simp: round_half_even_def tie_even_def)
  qed
qed

lemma round_half_even_tie:
  assumes "q - of_int \<lfloor>q\<rfloor> = 1 / 2"
  shows "even (round_half_even q)"
  using assms by (simp add: round_half_even_def tie_even_def)

lemma quantum_pos: "0 < quantum x"
  by (simp add: quantum_def pow2_pos)

lemma round_double_closest: "\<bar>round_double x - x\<bar> \<le> \<bar>of_int m * quantum x - x\<bar>"
proof (cases "x = 0")
  case True
  then show ?thesis
    by (simp add: round_double_def)
next
  case False
  let ?u = "quantum x"
  have u: "0 < ?u" by (rule quantum_pos)
  have "\<bar>round_double x - x\<bar> = \<bar>of_int (round_half_even (x / ?u)) - x / ?u\<bar> * ?u"
  proof -
    have "round_double x - x = (of_int (round_half_even (x / ?u)) - x / ?u) * ?u"
      using False u by (simp add: round_double_def to_grid_def algebra_simps)
    then show ?thesis
      using u by (simp add: abs_mult)
  qed
  also have "\<dots> \<le> \<bar>of_int m - x / ?u\<bar> * ?u"
    using round_half_even_closest [of "x / ?u" m] u by (intro mult_right_mono) simp_all
  also have "\<dots> = \<bar>of_int m * ?u - x\<bar>"
  proof -
    have "of_int m * ?u - x = (of_int m - x / ?u) * ?u"
      using u by (simp add: algebra_simps)
    then show ?thesis
      using u by (simp add: abs_mult)
  qed
  finally show ?thesis .
qed

lemma pow2_add: "pow2 (a + b) = pow2 a * pow2 b"
  by (simp add: pow2_powi power_int_add)

lemma pow2_mono: "a \<le> b \<Longrightarrow> pow2 a \<le> pow2 b"
  by (simp add: pow2_powi power_int_increasing)

lemma round_double_significand:
  "\<exists>n. round_double x = of_int n * quantum x \<and> \<bar>n\<bar> \<le> 2 ^ 53"
proof (cases "x = 0")
  case True
  then show ?thesis
    by (intro exI [of _ 0]) (simp add: round_double_def)
next
  case False
  let ?u = "quantum x"
  let ?e = "max (floor_log2 \<bar>x\<bar>) (- 1022) - 52"
  have u: "0 < ?u" by (rule quantum_pos)
  have "\<bar>x\<bar> < pow2 (floor_log2 \<bar>x\<bar> + 1)"
    using floor_log2_bounds [of "\<bar>x\<bar>"] False by simp
  also have "\<dots> \<le> pow2 (?e + 53)"
    by (rule pow2_mono) simp
  also have "\<dots> = pow2 ?e * pow2 53"
    by (rule pow2_add)
  also have "\<dots> = ?u * 2 ^ 53"
    unfolding quantum_def by (simp add: pow2_def)
  finally have "\<bar>x\<bar> / ?u < 2 ^ 53"
    using u by (simp add: field_simps)
  then have q: "\<bar>x / ?u\<bar> < 2 ^ 53"
    using u by simp
  let ?n = "round_half_even (x / ?u)"
  have "\<bar>of_int ?n - x / ?u\<bar> \<le> 1 / 2"
    by (rule round_half_even_nearest)
  with q have "\<bar>(of_int ?n :: rat)\<bar> < 2 ^ 53 + 1"
    by linarith
  then have "(of_int \<bar>?n\<bar> :: rat) < of_int (2 ^ 53 + 1)"
    by simp
  then have "\<bar>?n\<bar> < 2 ^ 53 + 1"
    by (simp only: of_int_less_iff)
  then have "\<bar>?n\<bar> \<le> 2 ^ 53"
    by simp
  then show ?thesis
    using False by (intro exI [of _ ?n]) (simp add: round_double_def to_grid_def)
qed

section \<open>Evaluation of float arithmetic\<close>

lemma floor_rat_numeral_div [simp]:
  "\<lfloor>numeral a / numeral b :: rat\<rfloor> = numeral a div numeral b"
  using floor_divide_of_int_eq [where ?'a = rat, of "numeral a" "numeral b"] by simp

lemma floor_rat_neg_numeral_div [simp]:
  "\<lfloor>- (numeral a / numeral b) :: rat\<rfloor> = - numeral a div numeral b"
  using floor_divide_of_int_eq [where ?'a = rat, of "- numeral a" "numeral b"] by simp

lemmas float_eval =
  round_double_def to_grid_def quantum_def floor_log2_def round_half_even_def tie_even_def
  pow2_def fadd_def fsub_def fmul_def fdiv_def fmin_def py_round_def float_lit_def
  float_of_int_def compute_bitlen

section \<open>Refinement of the specified rules\<close>

lemma float_gt_truthy: "float_gt v c \<Longrightarrow> 0 \<le> c \<Longrightarrow> float_truthy v"
  by (cases v) auto

lemma modifiers_eq_spec:
  assumes "valid_QuoteRequest r"
  shows "modifiers r = spec_modifier r"
  using assms
  by (cases "quote_type r")
     (auto simp: modifiers_def spec_modifier_def valid_QuoteRequest_def field_ok_def
        age_modifier_def vehicle_modifier_def accidents_modifier_def home_value_modifier_def
        security_modifier_def present_below_def or_zero_def spec_age_rule_def spec_vehicle_rule_def
        spec_accidents_rule_def spec_home_value_rule_def spec_security_rule_def Let_def
        split: option.splits dest: float_gt_truthy)

section \<open>The modifiers and prices of valid requests\<close>

lemma age_modifier_cases: "age_modifier r 0 = 0 \<or> age_modifier r 0 = 1 / 4"
  by (simp add: age_modifier_def float_eval)

lemma vehicle_modifier_cases:
  assumes "m = 0 \<or> m = 1 / 4"
  shows "vehicle_modifier r m = 0 \<or> vehicle_modifier r m = 5404319552844595 / 36028797018963968 \<or> vehicle_modifier r m = 1 / 4 \<or> vehicle_modifier r m = 3602879701896397 / 9007199254740992"
  using assms by (elim disjE; hypsubst; simp add: vehicle_modifier_def float_eval)

lemma accidents_term_cases:
  assumes "0 < a" and "a \<le> 10"
  shows "fmin (float_lit (4 / 10)) (fmul (float_lit (1 / 10)) (float_of_int a)) = 3602879701896397 / 36028797018963968 \<or> fmin (float_lit (4 / 10)) (fmul (float_lit (1 / 10)) (float_of_int a)) = 3602879701896397 / 18014398509481984 \<or> fmin (float_lit (4 / 10)) (fmul (float_lit (1 / 10)) (float_of_int a)) = 1351079888211149 / 4503599627370496 \<or> fmin (float_lit (4 / 10)) (fmul (float_lit (1 / 10)) (float_of_int a)) = 3602879701896397 / 9007199254740992"
proof -
  from assms have "a = 1 \<or> a = 2 \<or> a = 3 \<or> a = 4 \<or> a = 5 \<or> a = 6 \<or> a = 7 \<or> a = 8 \<or> a = 9 \<or> a = 10"
    by presburger
  then show ?thesis
    by (elim disjE; hypsubst; simp add: float_eval)
qed

lemma fadd_accidents_cases:
  assumes "m = 0 \<or> m = 5404319552844595 / 36028797018963968 \<or> m = 1 / 4 \<or> m = 3602879701896397 / 9007199254740992"
    and "c = 3602879701896397 / 36028797018963968 \<or> c = 3602879701896397 / 18014398509481984 \<or> c = 1351079888211149 / 4503599627370496 \<or> c = 3602879701896397 / 9007199254740992"
  shows "fadd m c = 0 \<or> fadd m c = 3602879701896397 / 36028797018963968 \<or> fadd m c = 3602879701896397 / 18014398509481984 \<or> fadd m c = 1351079888211149 / 4503599627370496 \<or> fadd m c = 3602879701896397 / 9007199254740992 \<or> fadd m c = 5404319552844595 / 36028797018963968 \<or> fadd m c = 1 / 4 \<or> fadd m c = 3152519739159347 / 9007199254740992 \<or> fadd m c = 4053239664633447 / 9007199254740992 \<or> fadd m c = 2476979795053773 / 4503599627370496 \<or> fadd m c = 8106479329266893 / 18014398509481984 \<or> fadd m c = 5854679515581645 / 9007199254740992 \<or> fadd m c = 1 / 2 \<or> fadd m c = 1351079888211149 / 2251799813685248 \<or> fadd m c = 6305039478318695 / 9007199254740992 \<or> fadd m c = 3602879701896397 / 4503599627370496"
  using assms by (elim disjE; hypsubst; simp add: float_eval)

lemma home_value_modifier_cases:
  assumes "m = 0 \<or> m = 1 / 4"
  shows "home_value_modifier r m = 0 \<or> home_value_modifier r m = 3602879701896397 / 18014398509481984 \<or> home_value_modifier r m = 1 / 4 \<or> home_value_modifier r m = 8106479329266893 / 18014398509481984"
  using assms by (elim disjE; hypsubst; simp add: home_value_modifier_def float_eval)

lemma security_modifier_cases:
  assumes "m = 0 \<or> m = 3602879701896397 / 18014398509481984 \<or> m = 1 / 4 \<or> m = 8106479329266893 / 18014398509481984"
  shows "security_modifier r m = 0 \<or> security_modifier r m = - (3602879701896397 / 72057594037927936) \<or> security_modifier r m = 3602879701896397 / 18014398509481984 \<or> security_modifier r m = 1351079888211149 / 9007199254740992 \<or> security_modifier r m = 1 / 4 \<or> security_modifier r m = 8106479329266893 / 18014398509481984 \<or> security_modifier r m = 3602879701896397 / 9007199254740992"
  using assms by (elim disjE; hypsubst; simp add: security_modifier_def float_eval)

lemma auto_price_table:
  "monthly_price 600 (0) (float_lit (95 / 100)) = 95 / 2"
  "monthly_price 600 (0) (float_lit (102 / 100)) = 51"
  "monthly_price 600 (0) (float_lit (88 / 100)) = 44"
  "monthly_price 600 (3602879701896397 / 36028797018963968) (float_lit (95 / 100)) = 209 / 4"
  "monthly_price 600 (3602879701896397 / 36028797018963968) (float_lit (102 / 100)) = 7895373096733901 / 140737488355328"
  "monthly_price 600 (3602879701896397 / 36028797018963968) (float_lit (88 / 100)) = 6811694436397875 / 140737488355328"
  "monthly_price 600 (3602879701896397 / 18014398509481984) (float_lit (95 / 100)) = 57"
  "monthly_price 600 (3602879701896397 / 18014398509481984) (float_lit (102 / 100)) = 4306567143673037 / 70368744177664"
  "monthly_price 600 (3602879701896397 / 18014398509481984) (float_lit (88 / 100)) = 3715469692580659 / 70368744177664"
  "monthly_price 600 (1351079888211149 / 4503599627370496) (float_lit (95 / 100)) = 247 / 4"
  "monthly_price 600 (1351079888211149 / 4503599627370496) (float_lit (102 / 100)) = 4665447738979123 / 70368744177664"
  "monthly_price 600 (1351079888211149 / 4503599627370496) (float_lit (88 / 100)) = 4025092166962381 / 70368744177664"
  "monthly_price 600 (3602879701896397 / 9007199254740992) (float_lit (95 / 100)) = 133 / 2"
  "monthly_price 600 (3602879701896397 / 9007199254740992) (float_lit (102 / 100)) = 2512164167142605 / 35184372088832"
  "monthly_price 600 (3602879701896397 / 9007199254740992) (float_lit (88 / 100)) = 8669429282688205 / 140737488355328"
  "monthly_price 600 (5404319552844595 / 36028797018963968) (float_lit (95 / 100)) = 7687081613968015 / 140737488355328"
  "monthly_price 600 (5404319552844595 / 36028797018963968) (float_lit (102 / 100)) = 8254253692039987 / 140737488355328"
  "monthly_price 600 (5404319552844595 / 36028797018963968) (float_lit (88 / 100)) = 7121316910779597 / 140737488355328"
  "monthly_price 600 (1 / 4) (float_lit (95 / 100)) = 8356992058539377 / 140737488355328"
  "monthly_price 600 (1 / 4) (float_lit (102 / 100)) = 255 / 4"
  "monthly_price 600 (1 / 4) (float_lit (88 / 100)) = 55"
  "monthly_price 600 (3152519739159347 / 9007199254740992) (float_lit (95 / 100)) = 564005484583977 / 8796093022208"
  "monthly_price 600 (3152519739159347 / 9007199254740992) (float_lit (102 / 100)) = 2422444018316083 / 35184372088832"
  "monthly_price 600 (3152519739159347 / 9007199254740992) (float_lit (88 / 100)) = 8359806808306483 / 140737488355328"
  "monthly_price 600 (4053239664633447 / 9007199254740992) (float_lit (95 / 100)) = 605874887369687 / 8796093022208"
  "monthly_price 600 (4053239664633447 / 9007199254740992) (float_lit (102 / 100)) = 5203768631938253 / 70368744177664"
  "monthly_price 600 (4053239664633447 / 9007199254740992) (float_lit (88 / 100)) = 4489525878534963 / 70368744177664"
  "monthly_price 600 (2476979795053773 / 4503599627370496) (float_lit (95 / 100)) = 647568368294953 / 8796093022208"
  "monthly_price 600 (2476979795053773 / 4503599627370496) (float_lit (102 / 100)) = 5562649227244339 / 70368744177664"
  "monthly_price 600 (2476979795053773 / 4503599627370496) (float_lit (88 / 100)) = 4799148352916685 / 70368744177664"
  "monthly_price 600 (8106479329266893 / 18014398509481984) (float_lit (95 / 100)) = 605874887369687 / 8796093022208"
  "monthly_price 600 (8106479329266893 / 18014398509481984) (float_lit (102 / 100)) = 5203768631938253 / 70368744177664"
  "monthly_price 600 (8106479329266893 / 18014398509481984) (float_lit (88 / 100)) = 4489525878534963 / 70368744177664"
  "monthly_price 600 (5854679515581645 / 9007199254740992) (float_lit (95 / 100)) = 689437771080663 / 8796093022208"
  "monthly_price 600 (5854679515581645 / 9007199254740992) (float_lit (102 / 100)) = 2960764911275213 / 35184372088832"
  "monthly_price 600 (5854679515581645 / 9007199254740992) (float_lit (88 / 100)) = 2554385413649203 / 35184372088832"
  "monthly_price 600 (1 / 2) (float_lit (95 / 100)) = 285 / 4"
  "monthly_price 600 (1 / 2) (float_lit (102 / 100)) = 153 / 2"
  "monthly_price 600 (1 / 2) (float_lit (88 / 100)) = 66"
  "monthly_price 600 (1351079888211149 / 2251799813685248) (float_lit (95 / 100)) = 76"
  "monthly_price 600 (1351079888211149 / 2251799813685248) (float_lit (102 / 100)) = 2871044762448691 / 35184372088832"
  "monthly_price 600 (1351079888211149 / 2251799813685248) (float_lit (88 / 100)) = 2476979795053773 / 35184372088832"
  "monthly_price 600 (6305039478318695 / 9007199254740992) (float_lit (95 / 100)) = 323 / 4"
  "monthly_price 600 (6305039478318695 / 9007199254740992) (float_lit (102 / 100)) = 6100970120203469 / 70368744177664"
  "monthly_price 600 (6305039478318695 / 9007199254740992) (float_lit (88 / 100)) = 5263582064489267 / 70368744177664"
  "monthly_price 600 (3602879701896397 / 4503599627370496) (float_lit (95 / 100)) = 171 / 2"
  "monthly_price 600 (3602879701896397 / 4503599627370496) (float_lit (102 / 100)) = 6459850715509555 / 70368744177664"
  "monthly_price 600 (3602879701896397 / 4503599627370496) (float_lit (88 / 100)) = 5573204538870989 / 70368744177664"
  by (simp_all add: monthly_price_def float_eval)

lemma home_price_table:
  "monthly_price 1200 (0) (float_lit (95 / 100)) = 95"
  "monthly_price 1200 (0) (float_lit (102 / 100)) = 102"
  "monthly_price 1200 (0) (float_lit (88 / 100)) = 88"
  "monthly_price 1200 (- (3602879701896397 / 72057594037927936)) (float_lit (95 / 100)) = 361 / 4"
  "monthly_price 1200 (- (3602879701896397 / 72057594037927936)) (float_lit (102 / 100)) = 3409365655407821 / 35184372088832"
  "monthly_price 1200 (- (3602879701896397 / 72057594037927936)) (float_lit (88 / 100)) = 2941413506626355 / 35184372088832"
  "monthly_price 1200 (3602879701896397 / 18014398509481984) (float_lit (95 / 100)) = 114"
  "monthly_price 1200 (3602879701896397 / 18014398509481984) (float_lit (102 / 100)) = 4306567143673037 / 35184372088832"
  "monthly_price 1200 (3602879701896397 / 18014398509481984) (float_lit (88 / 100)) = 3715469692580659 / 35184372088832"
  "monthly_price 1200 (1351079888211149 / 9007199254740992) (float_lit (95 / 100)) = 437 / 4"
  "monthly_price 1200 (1351079888211149 / 9007199254740992) (float_lit (102 / 100)) = 8254253692039987 / 70368744177664"
  "monthly_price 1200 (1351079888211149 / 9007199254740992) (float_lit (88 / 100)) = 7121316910779597 / 70368744177664"
  "monthly_price 1200 (1 / 4) (float_lit (95 / 100)) = 475 / 4"
  "monthly_price 1200 (1 / 4) (float_lit (102 / 100)) = 255 / 2"
  "monthly_price 1200 (1 / 4) (float_lit (88 / 100)) = 110"
  "monthly_price 1200 (8106479329266893 / 18014398509481984) (float_lit (95 / 100)) = 551 / 4"
  "monthly_price 1200 (8106479329266893 / 18014398509481984) (float_lit (102 / 100)) = 5203768631938253 / 35184372088832"
  "monthly_price 1200 (8106479329266893 / 18014398509481984) (float_lit (88 / 100)) = 4489525878534963 / 35184372088832"
  "monthly_price 1200 (3602879701896397 / 9007199254740992) (float_lit (95 / 100)) = 133"
  "monthly_price 1200 (3602879701896397 / 9007199254740992) (float_lit (102 / 100)) = 2512164167142605 / 17592186044416"
  "monthly_price 1200 (3602879701896397 / 9007199254740992) (float_lit (88 / 100)) = 8669429282688205 / 70368744177664"
  by (simp_all add: monthly_price_def float_eval)

lemma create_quote_results:
  assumes "fst (create_quote cd db payload) = Inr resp"
  shows "resp_results resp = carriers payload"
    and "resp_quote_type resp = quote_type payload"
    and "resp_zip_code resp = zip_code payload"
  using assms
  by (auto simp: create_quote_def Let_def split: option.splits prod.splits sum.splits)

lemma spec_base_price_eq: "spec_base_price r = base_price r"
  by (cases "quote_type r") (simp_all add: spec_base_price_def base_price_def)

lemma monthly_price_eq_spec:
  assumes "valid_QuoteRequest r"
  shows "monthly_price (base_price r) (modifiers r) c = spec_monthly r c"
  using modifiers_eq_spec [OF assms]
  by (simp add: monthly_price_def spec_monthly_def spec_base_price_eq)

lemma modifiers_auto:
  assumes "quote_type r = Auto"
  shows "modifiers r = accidents_modifier r (vehicle_modifier r (age_modifier r 0))"
  using assms by (simp add: modifiers_def)

lemma modifiers_home:
  assumes "quote_type r = Home"
  shows "modifiers r = security_modifier r (home_value_modifier r (age_modifier r 0))"
  using assms by (simp add: modifiers_def)

lemma accidents_modifier_cases:
  assumes "valid_QuoteRequest r"
  shows "accidents_modifier r m = m \<or>
         (\<exists>c. (c = 3602879701896397 / 36028797018963968 \<or> c = 3602879701896397 / 18014398509481984 \<or>
               c = 1351079888211149 / 4503599627370496 \<or> c = 3602879701896397 / 9007199254740992) \<and>
              accidents_modifier r m = fadd m c)"
proof (cases "0 < or_zero (accidents_last_5_years r)")
  case False
  then show ?thesis
    by (simp add: accidents_modifier_def)
next
  case True
  moreover have "or_zero (accidents_last_5_years r) \<le> 10"
    using assms
    by (cases "accidents_last_5_years r")
       (simp_all add: valid_QuoteRequest_def field_ok_def or_zero_def)
  ultimately have t: "fmin (float_lit (4 / 10)) (fmul (float_lit (1 / 10)) (float_of_int (or_zero (accidents_last_5_years r)))) = 3602879701896397 / 36028797018963968 \<or> fmin (float_lit (4 / 10)) (fmul (float_lit (1 / 10)) (float_of_int (or_zero (accidents_last_5_years r)))) = 3602879701896397 / 18014398509481984 \<or> fmin (float_lit (4 / 10)) (fmul (float_lit (1 / 10)) (float_of_int (or_zero (accidents_last_5_years r)))) = 1351079888211149 / 4503599627370496 \<or> fmin (float_lit (4 / 10)) (fmul (float_lit (1 / 10)) (float_of_int (or_zero (accidents_last_5_years r)))) = 3602879701896397 / 9007199254740992"
    by (rule accidents_term_cases)
  have e: "accidents_modifier r m =
      fadd m (fmin (float_lit (4 / 10))
        (fmul (float_lit (1 / 10)) (float_of_int (or_zero (accidents_last_5_years r)))))"
    unfolding accidents_modifier_def using True by (rule if_P)
  from t show ?thesis
    unfolding e by blast
qed

lemma modifiers_auto_cases:
  assumes "valid_QuoteRequest r" and "quote_type r = Auto"
  shows "modifiers r = 0 \<or> modifiers r = 3602879701896397 / 36028797018963968 \<or> modifiers r = 3602879701896397 / 18014398509481984 \<or> modifiers r = 1351079888211149 / 4503599627370496 \<or> modifiers r = 3602879701896397 / 9007199254740992 \<or> modifiers r = 5404319552844595 / 36028797018963968 \<or> modifiers r = 1 / 4 \<or> modifiers r = 3152519739159347 / 9007199254740992 \<or> modifiers r = 4053239664633447 / 9007199254740992 \<or> modifiers r = 2476979795053773 / 4503599627370496 \<or> modifiers r = 8106479329266893 / 18014398509481984 \<or> modifiers r = 5854679515581645 / 9007199254740992 \<or> modifiers r = 1 / 2 \<or> modifiers r = 1351079888211149 / 2251799813685248 \<or> modifiers r = 6305039478318695 / 9007199254740992 \<or> modifiers r = 3602879701896397 / 4503599627370496"
proof -
  let ?m = "vehicle_modifier r (age_modifier r 0)"
  have v: "?m = 0 \<or> ?m = 5404319552844595 / 36028797018963968 \<or> ?m = 1 / 4 \<or>
      ?m = 3602879701896397 / 9007199254740992"
    by (rule vehicle_modifier_cases [OF age_modifier_cases])
  from accidents_modifier_cases [OF assms(1), of ?m]
  consider (same) "accidents_modifier r ?m = ?m"
    | (more) c where "c = 3602879701896397 / 36028797018963968 \<or> c = 3602879701896397 / 18014398509481984 \<or>
               c = 1351079888211149 / 4503599627370496 \<or> c = 3602879701896397 / 9007199254740992"
      and "accidents_modifier r ?m = fadd ?m c"
    by blast
  then show ?thesis
  proof cases
    case same
    with v show ?thesis
      unfolding modifiers_auto [OF assms(2)] by auto
  next
    case more
    have "modifiers r = fadd ?m c"
      unfolding modifiers_auto [OF assms(2)] by (rule more(2))
    with fadd_accidents_cases [OF v more(1)] show ?thesis
      by simp
  qed
qed

lemma modifiers_home_cases:
  assumes "quote_type r = Home"
  shows "modifiers r = 0 \<or> modifiers r = - (3602879701896397 / 72057594037927936) \<or> modifiers r = 3602879701896397 / 18014398509481984 \<or> modifiers r = 1351079888211149 / 9007199254740992 \<or> modifiers r = 1 / 4 \<or> modifiers r = 8106479329266893 / 18014398509481984 \<or> modifiers r = 3602879701896397 / 9007199254740992"
  unfolding modifiers_home [OF assms]
  by (rule security_modifier_cases [OF home_value_modifier_cases [OF age_modifier_cases]])

lemma auto_price_order:
  assumes "m = 0 \<or> m = 3602879701896397 / 36028797018963968 \<or> m = 3602879701896397 / 18014398509481984 \<or> m = 1351079888211149 / 4503599627370496 \<or> m = 3602879701896397 / 9007199254740992 \<or> m = 5404319552844595 / 36028797018963968 \<or> m = 1 / 4 \<or> m = 3152519739159347 / 9007199254740992 \<or> m = 4053239664633447 / 9007199254740992 \<or> m = 2476979795053773 / 4503599627370496 \<or> m = 8106479329266893 / 18014398509481984 \<or> m = 5854679515581645 / 9007199254740992 \<or> m = 1 / 2 \<or> m = 1351079888211149 / 2251799813685248 \<or> m = 6305039478318695 / 9007199254740992 \<or> m = 3602879701896397 / 4503599627370496"
  shows "monthly_price 600 m (float_lit (88 / 100)) \<le> monthly_price 600 m (float_lit (95 / 100)) \<and>
         monthly_price 600 m (float_lit (95 / 100)) \<le> monthly_price 600 m (float_lit (102 / 100))"
  using assms by (elim disjE; hypsubst; simp only: auto_price_table; simp)

lemma home_price_order:
  assumes "m = 0 \<or> m = - (3602879701896397 / 72057594037927936) \<or> m = 3602879701896397 / 18014398509481984 \<or> m = 1351079888211149 / 9007199254740992 \<or> m = 1 / 4 \<or> m = 8106479329266893 / 18014398509481984 \<or> m = 3602879701896397 / 9007199254740992"
  shows "monthly_price 1200 m (float_lit (88 / 100)) \<le> monthly_price 1200 m (float_lit (95 / 100)) \<and>
         monthly_price 1200 m (float_lit (95 / 100)) \<le> monthly_price 1200 m (float_lit (102 / 100))"
  using assms by (elim disjE; hypsubst; simp only: home_price_table; simp)

lemma handler_failure:
  "(isl (fst (create_quote cd db payload)) \<longleftrightarrow>
      db = None \<or>
      (\<exists>s. db = Some s \<and>
           isl (fst (cd ''quote'' \<lparr>request = payload, results = carriers payload\<rparr> s)))) \<and>
   (\<forall>f. fst (create_quote cd db payload) = Inl f \<longrightarrow> http_status f = 500) \<and>
   (\<forall>s e s'. db = Some s \<and>
        cd ''quote'' \<lparr>request = payload, results = carriers payload\<rparr> s = (Inl e, s') \<longrightarrow>
        create_quote cd db payload =
          (Inl (HTTPException 500 (''Failed to save: '' @ e)), Some s'))"
  by (auto simp: create_quote_def Let_def split: option.splits prod.splits sum.splits)

section \<open>Claims\<close>

text \<open>
  C1. For every valid request that \<^verbatim>\<open>create_quote\<close> answers, the response carries exactly
  three offers, and their monthly prices are, in this order, the prices that section 4.1 of
  the specification prescribes for the multipliers 0.95, 1.02 and 0.88: the base price 600
  or 1200, times one plus the modifier accumulated by the five rules, divided by 12, times
  the multiplier, rounded to two decimals.
\<close>

theorem create_quote_offers:
  assumes "valid_QuoteRequest payload"
    and "fst (create_quote cd db payload) = Inr resp"
  shows "length (resp_results resp) = 3 \<and>
         map monthly (resp_results resp) =
           [spec_monthly payload (float_lit (95 / 100)),
            spec_monthly payload (float_lit (102 / 100)),
            spec_monthly payload (float_lit (88 / 100))]"
proof -
  have "resp_results resp = carriers payload"
    using assms(2) by (rule create_quote_results)
  then show ?thesis
    by (simp add: carriers_def monthly_price_eq_spec [OF assms(1)])
qed

theorem create_quote_offers_witness:
  "valid_QuoteRequest young_driver \<and>
   fst (create_quote create_document (Some empty_database) young_driver) =
     Inr \<lparr>resp_id = ''i'', resp_quote_type = Auto, resp_zip_code = ''94107'',
          resp_results = carriers young_driver\<rparr> \<and>
   length (carriers young_driver) = 3 \<and>
   map monthly (carriers young_driver) =
     [spec_monthly young_driver (float_lit (95 / 100)),
      spec_monthly young_driver (float_lit (102 / 100)),
      spec_monthly young_driver (float_lit (88 / 100))]"
proof -
  have v: "valid_QuoteRequest young_driver"
    by (simp add: valid_QuoteRequest_def field_ok_def)
  have c: "fst (create_quote create_document (Some empty_database) young_driver) =
     Inr \<lparr>resp_id = ''i'', resp_quote_type = Auto, resp_zip_code = ''94107'',
          resp_results = carriers young_driver\<rparr>"
    by (simp add: create_quote_def create_document_def object_id_def empty_database_def)
  from create_quote_offers [OF v c] v c show ?thesis
    by simp
qed



text \<open>
  C3. For every auto request with an age of at least 25, a vehicle year of at least 2005
  and no accidents, the modifier is 0 and the three monthly prices are 47.50, 51.00 and
  44.00.
\<close>

theorem clean_auto_prices:
  assumes "quote_type r = Auto"
    and "age r = Some a" and "25 \<le> a"
    and "vehicle_year r = Some y" and "2005 \<le> y"
    and "accidents_last_5_years r = Some 0"
  shows "modifiers r = 0 \<and>
         map monthly (carriers r) = [4750 / 100, 5100 / 100, 4400 / 100]"
proof -
  have m: "modifiers r = 0"
    using assms
    by (simp add: modifiers_auto age_modifier_def vehicle_modifier_def accidents_modifier_def
          present_below_def or_zero_def)
  have b: "base_price r = 600"
    using assms(1) by (simp add: base_price_def)
  have "map monthly (carriers r) =
      [monthly_price 600 0 (float_lit (95 / 100)), monthly_price 600 0 (float_lit (102 / 100)),
       monthly_price 600 0 (float_lit (88 / 100))]"
    unfolding carriers_def m b by simp
  also have "\<dots> = [4750 / 100, 5100 / 100, 4400 / 100]"
    unfolding auto_price_table by simp
  finally have "map monthly (carriers r) = [4750 / 100, 5100 / 100, 4400 / 100]" .
  with m show ?thesis
    by blast
qed

theorem clean_auto_prices_witness:
  "quote_type careful_driver = Auto \<and> age careful_driver = Some 41 \<and> (25::int) \<le> 41 \<and>
   vehicle_year careful_driver = Some 2018 \<and> (2005::int) \<le> 2018 \<and>
   accidents_last_5_years careful_driver = Some 0 \<and>
   modifiers careful_driver = 0 \<and>
   map monthly (carriers careful_driver) = [4750 / 100, 5100 / 100, 4400 / 100]"
proof -
  have h: "quote_type careful_driver = Auto" "age careful_driver = Some 41" "(25::int) \<le> 41"
    "vehicle_year careful_driver = Some 2018" "(2005::int) \<le> 2018"
    "accidents_last_5_years careful_driver = Some 0"
    by simp_all
  from clean_auto_prices [OF h] h show ?thesis
    by blast
qed

text \<open>
  C4 (amended). For a home request with a home value of 800000, a security system and age
  30, the modifier is the double that \<^verbatim>\<open>0.2 - 0.05\<close> evaluates to, which is
  0.15000000000000002 and not the double 0.15; the effective monthly base is exactly 115,
  and the three monthly prices are 109.25, 117.30 and 101.20.
\<close>

theorem home_example_prices:
  assumes "quote_type r = Home"
    and "home_value r = Some (Fin 800000)"
    and "security_system r = Some True"
    and "age r = Some 30"
  shows "modifiers r = fsub (fadd 0 (float_lit (2 / 10))) (float_lit (5 / 100)) \<and>
         modifiers r = 1351079888211149 / 9007199254740992 \<and>
         fdiv (fmul (base_price r) (fadd (float_of_int 1) (modifiers r))) (float_of_int 12) = 115 \<and>
         map monthly (carriers r) =
           [10925 / 100, float_lit (11730 / 100), float_lit (10120 / 100)]"
proof -
  have m: "modifiers r = fsub (fadd 0 (float_lit (2 / 10))) (float_lit (5 / 100))"
    using assms
    by (simp add: modifiers_home age_modifier_def home_value_modifier_def security_modifier_def
          present_below_def)
  have v: "fsub (fadd 0 (float_lit (2 / 10))) (float_lit (5 / 100)) =
      1351079888211149 / 9007199254740992"
    by (simp add: float_eval)
  have b: "base_price r = 1200"
    using assms(1) by (simp add: base_price_def)
  have e: "fdiv (fmul 1200 (fadd (float_of_int 1) (1351079888211149 / 9007199254740992)))
      (float_of_int 12) = 115"
    by (simp add: float_eval)
  have l: "float_lit (11730 / 100) = 8254253692039987 / 70368744177664"
    "float_lit (10120 / 100) = 7121316910779597 / 70368744177664"
    by (simp_all add: float_eval)
  have "map monthly (carriers r) =
      [monthly_price 1200 (1351079888211149 / 9007199254740992) (float_lit (95 / 100)),
       monthly_price 1200 (1351079888211149 / 9007199254740992) (float_lit (102 / 100)),
       monthly_price 1200 (1351079888211149 / 9007199254740992) (float_lit (88 / 100))]"
    unfolding carriers_def m v b by simp
  also have "\<dots> = [10925 / 100, float_lit (11730 / 100), float_lit (10120 / 100)]"
    unfolding home_price_table l by simp
  finally have p: "map monthly (carriers r) =
      [10925 / 100, float_lit (11730 / 100), float_lit (10120 / 100)]" .
  have mv: "modifiers r = 1351079888211149 / 9007199254740992"
    unfolding m by (rule v)
  have eb: "fdiv (fmul (base_price r) (fadd (float_of_int 1) (modifiers r))) (float_of_int 12) = 115"
    unfolding b mv by (rule e)
  from m mv eb p show ?thesis
    by blast
qed

theorem home_example_prices_witness:
  "quote_type home_example = Home \<and> home_value home_example = Some (Fin 800000) \<and>
   security_system home_example = Some True \<and> age home_example = Some 30 \<and>
   modifiers home_example = fsub (fadd 0 (float_lit (2 / 10))) (float_lit (5 / 100)) \<and>
   modifiers home_example = 1351079888211149 / 9007199254740992 \<and>
   fdiv (fmul (base_price home_example) (fadd (float_of_int 1) (modifiers home_example)))
     (float_of_int 12) = 115 \<and>
   map monthly (carriers home_example) =
     [10925 / 100, float_lit (11730 / 100), float_lit (10120 / 100)]"
proof -
  have h: "quote_type home_example = Home" "home_value home_example = Some (Fin 800000)"
    "security_system home_example = Some True" "age home_example = Some 30"
    by simp_all
  from home_example_prices [OF h] h show ?thesis
    by blast
qed

text \<open>
  At this request the modifier differs from the double 0.15 by one unit in the last place,
  \<open>2 ^ - 55\<close>.
\<close>

theorem home_example_modifier_counterexample:
  "modifiers home_example \<noteq> float_lit (15 / 100) \<and>
   modifiers home_example - float_lit (15 / 100) = 1 / 2 ^ 55"
  by (simp add: modifiers_home age_modifier_def home_value_modifier_def security_modifier_def
        present_below_def float_eval)

text \<open>
  C5. For every auto request with \<open>a > 0\<close> accidents, the modifier is the modifier of the
  same request without the accidents field plus the contribution \<^verbatim>\<open>min(0.4, 0.1 * a)\<close>; at
  \<open>a = 10\<close> the contribution is 0.4, which is below 1.0.
\<close>

theorem accidents_contribution:
  assumes "quote_type r = Auto"
    and "accidents_last_5_years r = Some a"
    and "0 < a"
  shows "modifiers r =
           fadd (modifiers (r\<lparr>accidents_last_5_years := None\<rparr>))
             (fmin (float_lit (4 / 10)) (fmul (float_lit (1 / 10)) (float_of_int a))) \<and>
         fmin (float_lit (4 / 10)) (fmul (float_lit (1 / 10)) (float_of_int 10)) = float_lit (4 / 10) \<and>
         float_lit (4 / 10) < 1"
proof -
  have "modifiers r =
      fadd (modifiers (r\<lparr>accidents_last_5_years := None\<rparr>))
        (fmin (float_lit (4 / 10)) (fmul (float_lit (1 / 10)) (float_of_int a)))"
    using assms
    by (simp add: modifiers_def Let_def accidents_modifier_def vehicle_modifier_def age_modifier_def
          or_zero_def)
  moreover have "fmin (float_lit (4 / 10)) (fmul (float_lit (1 / 10)) (float_of_int 10)) =
      float_lit (4 / 10)"
    by (simp add: float_eval)
  moreover have "float_lit (4 / 10) < 1"
    by (simp add: float_eval)
  ultimately show ?thesis
    by blast
qed

theorem accidents_contribution_witness:
  "quote_type young_driver = Auto \<and> accidents_last_5_years young_driver = Some 3 \<and> (0::int) < 3 \<and>
   modifiers young_driver =
     fadd (modifiers (young_driver\<lparr>accidents_last_5_years := None\<rparr>))
       (fmin (float_lit (4 / 10)) (fmul (float_lit (1 / 10)) (float_of_int 3))) \<and>
   fmin (float_lit (4 / 10)) (fmul (float_lit (1 / 10)) (float_of_int 10)) = float_lit (4 / 10) \<and>
   float_lit (4 / 10) < 1"
proof -
  have h: "quote_type young_driver = Auto" "accidents_last_5_years young_driver = Some 3"
    "(0::int) < 3"
    by simp_all
  from accidents_contribution [OF h] h show ?thesis
    by blast
qed

text \<open>
  C6. The offers of a home request do not change when its auto-specific fields (vehicle
  year, make, model, accidents) are replaced by any other values, and the offers of an auto
  request do not change when its home-specific fields (home value, square feet, security
  system) are replaced.
\<close>

theorem pricing_ignores_irrelevant_fields:
  "(quote_type r = Home \<longrightarrow>
      carriers (r\<lparr>vehicle_year := y, vehicle_make := mk, vehicle_model := md,
                  accidents_last_5_years := a\<rparr>) = carriers r) \<and>
   (quote_type r = Auto \<longrightarrow>
      carriers (r\<lparr>home_value := v, square_feet := sq, security_system := sec\<rparr>) = carriers r)"
  by (simp add: carriers_def base_price_def modifiers_def age_modifier_def
        home_value_modifier_def security_modifier_def vehicle_modifier_def accidents_modifier_def)

theorem pricing_ignores_irrelevant_fields_witness:
  "quote_type home_example = Home \<and>
   carriers (home_example\<lparr>vehicle_year := Some 1999, vehicle_make := Some ''Ford'',
               vehicle_model := Some ''Focus'', accidents_last_5_years := Some 4\<rparr>) =
     carriers home_example \<and>
   quote_type young_driver = Auto \<and>
   carriers (young_driver\<lparr>home_value := Some (Fin 900000), square_feet := Some 1800,
               security_system := Some True\<rparr>) =
     carriers young_driver"
  using pricing_ignores_irrelevant_fields [where r = home_example and y = "Some 1999"
      and mk = "Some ''Ford''" and md = "Some ''Focus''" and a = "Some 4"]
    pricing_ignores_irrelevant_fields [where r = young_driver and v = "Some (Fin 900000)"
      and sq = "Some 1800" and sec = "Some True"]
  by simp

text \<open>
  C7 (amended). For a body that passes validation, the route fails exactly when the store is
  not configured or the write raises, and every failure has status 500. When the write
  raises, the detail of the error is \<^verbatim>\<open>Failed to save: \<close> followed by the whole text of the
  exception, the store is left in the state after that single call, and no response is
  returned.
\<close>

theorem post_quotes_failure:
  assumes "valid_QuoteRequest body"
  shows "(isl (fst (post_api_quotes cd db body)) \<longleftrightarrow>
            db = None \<or>
            (\<exists>s. db = Some s \<and>
                 isl (fst (cd ''quote'' \<lparr>request = body, results = carriers body\<rparr> s)))) \<and>
         (\<forall>f. fst (post_api_quotes cd db body) = Inl f \<longrightarrow> http_status f = 500) \<and>
         (\<forall>s e s'. db = Some s \<and>
              cd ''quote'' \<lparr>request = body, results = carriers body\<rparr> s = (Inl e, s') \<longrightarrow>
              post_api_quotes cd db body =
                (Inl (HTTPException 500 (''Failed to save: '' @ e)), Some s'))"
proof -
  have e: "post_api_quotes cd db body = create_quote cd db body"
    using assms by (simp add: post_api_quotes_def)
  show ?thesis
    unfolding e by (rule handler_failure)
qed

theorem post_quotes_failure_witness:
  "valid_QuoteRequest young_driver \<and>
   isl (fst (post_api_quotes create_document None young_driver)) \<and>
   isl (fst (post_api_quotes create_document (Some unreachable_database) young_driver)) \<and>
   isl (fst (create_document ''quote''
     \<lparr>request = young_driver, results = carriers young_driver\<rparr> unreachable_database)) \<and>
   post_api_quotes create_document (Some unreachable_database) young_driver =
     (Inl (HTTPException 500
        (''Failed to save: '' @
         ''connection to the storage server at db.internal:27017 was refused'')),
      Some unreachable_database)"
proof -
  have v: "valid_QuoteRequest young_driver"
    by (simp add: valid_QuoteRequest_def field_ok_def)
  have w: "create_document ''quote'' \<lparr>request = young_driver, results = carriers young_driver\<rparr>
      unreachable_database =
      (Inl ''connection to the storage server at db.internal:27017 was refused'',
       unreachable_database)"
    by (simp add: create_document_def empty_database_def)
  from post_quotes_failure [OF v, of create_document "Some unreachable_database"]
    post_quotes_failure [OF v, of create_document None] v w
  show ?thesis
    by simp
qed

text \<open>
  The text of the exception is not truncated: all 65 characters of this one are surfaced,
  not its first 50 as in the diagnostic endpoint. A body with age 15 is answered with
  status 422 although the store is not configured, and a body whose home value is NaN is
  answered with status 500 although the store is configured and nothing is written.
\<close>

theorem post_quotes_failure_counterexample:
  "fst (post_api_quotes create_document (Some unreachable_database) young_driver) =
     Inl (HTTPException 500
       (''Failed to save: '' @
        ''connection to the storage server at db.internal:27017 was refused'')) \<and>
   length ''connection to the storage server at db.internal:27017 was refused'' = 65 \<and>
   fst (post_api_quotes create_document (Some unreachable_database) young_driver) \<noteq>
     Inl (HTTPException 500
       (''Failed to save: '' @
        take 50 ''connection to the storage server at db.internal:27017 was refused'')) \<and>
   post_api_quotes create_document None (young_driver\<lparr>age := Some 15\<rparr>) =
     (Inl RequestValidationError, None) \<and>
   http_status RequestValidationError \<noteq> 500 \<and>
   post_api_quotes create_document (Some empty_database) (home_example\<lparr>home_value := Some NaN\<rparr>) =
     (Inl InternalServerError, Some empty_database) \<and>
   http_status InternalServerError = 500"
  by (simp add: post_api_quotes_def valid_QuoteRequest_def field_ok_def unencodable_violation_def
        create_quote_def create_document_def empty_database_def)




text \<open>
  C9 (amended). For every limit that is not negative, a successful listing returns at most
  \<open>limit\<close> records, and they are the \<open>min limit n\<close> most recently inserted of the \<open>n\<close>
  stored quotes.
\<close>

theorem list_quotes_limit:
  assumes "0 \<le> limit"
    and "list_quotes get_documents db limit = Inr docs"
  shows "int (length docs) \<le> limit \<and>
         (\<exists>s. db = Some s \<and> suffix docs (collections s ''quote'') \<and>
              length docs = min (nat limit) (length (collections s ''quote'')))"
  using assms
  by (auto simp: list_quotes_def get_documents_def suffix_drop split: option.splits sum.splits)

text \<open>Of three stored quotes, the limit 2 returns the second and the third.\<close>

theorem list_quotes_limit_witness:
  "(0::int) \<le> 2 \<and>
   list_quotes get_documents (Some three_quotes) 2 = Inr [second_stored, third_stored] \<and>
   int (length [second_stored, third_stored]) \<le> 2 \<and>
   collections three_quotes ''quote'' = [first_stored, second_stored, third_stored] \<and>
   suffix [second_stored, third_stored] (collections three_quotes ''quote'') \<and>
   length [second_stored, third_stored] = min (nat 2) (length (collections three_quotes ''quote''))"
proof -
  have z: "(0::int) \<le> 2"
    by simp
  have l: "list_quotes get_documents (Some three_quotes) 2 = Inr [second_stored, third_stored]"
    by (simp add: list_quotes_def get_documents_def empty_database_def)
  have c: "collections three_quotes ''quote'' = [first_stored, second_stored, third_stored]"
    by (simp add: empty_database_def)
  from list_quotes_limit [OF z l] z l c show ?thesis
    by simp
qed

text \<open>With the limit \<open>- 1\<close> the listing succeeds and its zero records are more than the limit.\<close>

theorem list_quotes_limit_counterexample:
  "list_quotes get_documents (Some empty_database) (- 1) = Inr [] \<and>
   \<not> int (length ([] :: StoredDocument list)) \<le> - 1"
  by (simp add: list_quotes_def get_documents_def empty_database_def)

text \<open>
  C10. For every valid request the offers are those of BlueShield Mutual, NorthStar
  Insurance and Aurora Coverage Co., in this order, and the price of Aurora is at most the
  price of BlueShield, which is at most the price of NorthStar.
\<close>

theorem carriers_order:
  assumes "valid_QuoteRequest r"
  shows "map name (carriers r) =
           [''BlueShield Mutual'', ''NorthStar Insurance'', ''Aurora Coverage Co.''] \<and>
         monthly (carriers r ! 2) \<le> monthly (carriers r ! 0) \<and>
         monthly (carriers r ! 0) \<le> monthly (carriers r ! 1)"
proof (cases "quote_type r")
  case Auto
  then have "base_price r = 600"
    by (simp add: base_price_def)
  with auto_price_order [OF modifiers_auto_cases [OF assms Auto]] show ?thesis
    by (simp add: carriers_def)
next
  case Home
  then have "base_price r = 1200"
    by (simp add: base_price_def)
  with home_price_order [OF modifiers_home_cases [OF Home]] show ?thesis
    by (simp add: carriers_def)
qed

theorem carriers_order_witness:
  "valid_QuoteRequest young_driver \<and>
   map name (carriers young_driver) =
     [''BlueShield Mutual'', ''NorthStar Insurance'', ''Aurora Coverage Co.''] \<and>
   monthly (carriers young_driver ! 2) \<le> monthly (carriers young_driver ! 0) \<and>
   monthly (carriers young_driver ! 0) \<le> monthly (carriers young_driver ! 1)"
proof -
  have v: "valid_QuoteRequest young_driver"
    by (simp add: valid_QuoteRequest_def field_ok_def)
  from carriers_order [OF v] v show ?thesis
    by blast
qed

end
